theory Spec2Isabelle
  imports Complex_Main
begin

section \<open>The pyserial adapter of pyftdi: \<^verbatim>\<open>pyftdi/serialext/protocol_ftdi.py\<close>\<close>

text \<open>
  The module binds the pyserial port interface onto an FTDI device object. The class
  \<^verbatim>\<open>FtdiSerial\<close> is modelled as a record that is passed through every method and returned
  updated; a Python exception is a value of \<open>exn\<close>, and a method returns a \<open>result\<close>
  together with the state it leaves behind, because an exception does not undo the
  assignments made before it was raised.

  The device object (\<^verbatim>\<open>pyftdi.ftdi.Ftdi\<close>) and the clock are collaborators outside this
  module. They are parameters of the model: a device is described by what each of its
  methods answers, and every theorem below holds for all such descriptions.
\<close>

subsection \<open>Exceptions\<close>

text \<open>
  The exception classes the module names, and one constructor for every other class.
  The string is what \<^verbatim>\<open>str(ex)\<close> gives.
\<close>

datatype exn =
    SerialException string
  | UsbToolsError string
  | IOError string
  | AttributeError string
  | OtherError string

fun str :: "exn \<Rightarrow> string" where
  "str (SerialException m) = m"
| "str (UsbToolsError m) = m"
| "str (IOError m) = m"
| "str (AttributeError m) = m"
| "str (OtherError m) = m"

text \<open>
  \<^verbatim>\<open>except IOError\<close> catches the class and its subclasses; pyserial declares
  \<^verbatim>\<open>class SerialException(IOError)\<close>.
\<close>

fun is_IOError :: "exn \<Rightarrow> bool" where
  "is_IOError (IOError m) = True"
| "is_IOError (SerialException m) = True"
| "is_IOError e = False"

fun is_UsbToolsError :: "exn \<Rightarrow> bool" where
  "is_UsbToolsError (UsbToolsError m) = True"
| "is_UsbToolsError e = False"

fun is_AttributeError :: "exn \<Rightarrow> bool" where
  "is_AttributeError (AttributeError m) = True"
| "is_AttributeError e = False"

datatype 'a result = Return 'a | Raise exn

subsection \<open>The device object\<close>

text \<open>
  The calls the module makes on the device that change it, with their arguments.
\<close>

datatype call =
    Set_baudrate int
  | Set_line_property int real string
  | Set_flowctrl string
  | Set_dynamic_latency int int int
  | Close

text \<open>
  A device: \<open>raises\<close> tells for each call whether it raises (and what);
  \<open>has_set_dynamic_latency\<close> tells whether the object has that method at all (looking up
  a missing method raises \<^verbatim>\<open>AttributeError\<close> and calls nothing);
  \<open>get_error_string\<close> is the driver's last error text; \<open>read_data i n\<close> is what the
  device answers to the \<open>i\<close>-th \<^verbatim>\<open>read_data\<close> call of a \<^verbatim>\<open>read\<close>, which asks for \<open>n\<close>
  bytes: the bytes, or an exception. Bytes are \<open>char\<close>s, a byte string is a \<open>string\<close>.
\<close>

record ftdi =
  raises :: "call \<Rightarrow> exn option"
  has_set_dynamic_latency :: bool
  get_error_string :: string
  read_data :: "nat \<Rightarrow> int \<Rightarrow> exn + string"

text \<open>
  The attribute \<^verbatim>\<open>self.udev\<close>: never assigned (no constructor of the class assigns it),
  \<^verbatim>\<open>None\<close>, or a device object.
\<close>

datatype handle = Unset | NoneRef | Obj ftdi

subsection \<open>The port\<close>

text \<open>
  The attributes of \<^verbatim>\<open>FtdiSerial\<close> that the module reads or writes (the leading
  underscore of the pyserial names is dropped). \<open>calls\<close> is not an attribute: it is the
  log of the calls the devices have received, in order, kept so that what a method did to
  the device can be stated.
\<close>

record FtdiSerial =
  port :: "string option"
  portstr :: string
  udev :: handle
  is_open :: bool
  baudrate :: int
  bytesize :: int
  stopbits :: real
  parity :: string
  timeout :: "real option"
  rtscts :: bool
  xonxoff :: bool
  calls :: "call list"

text \<open>A call on the device: it is logged, and it returns or raises as the device says.\<close>

definition invoke :: "ftdi \<Rightarrow> call \<Rightarrow> FtdiSerial \<Rightarrow> unit result \<times> FtdiSerial" where
  "invoke d c s =
     ((case raises d c of None \<Rightarrow> Return () | Some e \<Rightarrow> Raise e),
      s\<lparr>calls := calls s @ [c]\<rparr>)"

text \<open>Statement sequencing: the second statement runs only if the first returned.\<close>

definition seq ::
  "(FtdiSerial \<Rightarrow> unit result \<times> FtdiSerial) \<Rightarrow> (FtdiSerial \<Rightarrow> unit result \<times> FtdiSerial)
     \<Rightarrow> FtdiSerial \<Rightarrow> unit result \<times> FtdiSerial" where
  "seq f g s = (case f s of (Raise e, s') \<Rightarrow> (Raise e, s') | (Return u, s') \<Rightarrow> g s')"

definition FtdiSerial_set_open_state :: "bool \<Rightarrow> FtdiSerial \<Rightarrow> FtdiSerial" where
  "FtdiSerial_set_open_state open_flag s = s\<lparr>is_open := open_flag\<rparr>"

subsection \<open>\<^verbatim>\<open>_reconfigure_port\<close>\<close>

text \<open>
  The inner \<^verbatim>\<open>try\<close>: \<^verbatim>\<open>self.udev.set_dynamic_latency(12, 200, 50)\<close>, with
  \<^verbatim>\<open>except AttributeError: pass\<close>.
\<close>

definition try_set_dynamic_latency :: "ftdi \<Rightarrow> FtdiSerial \<Rightarrow> unit result \<times> FtdiSerial" where
  "try_set_dynamic_latency d s =
     (if \<not> has_set_dynamic_latency d then (Return (), s)
      else case invoke d (Set_dynamic_latency 12 200 50) s of
             (Raise e, s') \<Rightarrow> if is_AttributeError e then (Return (), s') else (Raise e, s')
           | (Return u, s') \<Rightarrow> (Return (), s'))"

text \<open>The body of the outer \<^verbatim>\<open>try\<close>.\<close>

definition reconfigure_body :: "ftdi \<Rightarrow> FtdiSerial \<Rightarrow> unit result \<times> FtdiSerial" where
  "reconfigure_body d =
     seq (\<lambda>s. invoke d (Set_baudrate (baudrate s)) s)
    (seq (\<lambda>s. invoke d (Set_line_property (bytesize s) (stopbits s) (parity s)) s)
    (seq (\<lambda>s. if rtscts s then invoke d (Set_flowctrl ''hw'') s
              else if xonxoff s then invoke d (Set_flowctrl ''sw'') s
              else invoke d (Set_flowctrl '''') s)
         (try_set_dynamic_latency d)))"

text \<open>
  The method: \<^verbatim>\<open>except IOError as e\<close> turns the exception into a \<^verbatim>\<open>SerialException\<close>
  whose text is \<^verbatim>\<open>"%s (%s)" % (str(e), err)\<close>; any other exception passes through. When
  \<^verbatim>\<open>self.udev\<close> is \<^verbatim>\<open>None\<close> or unassigned, the first attribute access raises
  \<^verbatim>\<open>AttributeError\<close>, which the handler does not catch.
\<close>

definition FtdiSerial_reconfigure_port :: "FtdiSerial \<Rightarrow> unit result \<times> FtdiSerial" where
  "FtdiSerial_reconfigure_port s =
     (case udev s of
        Unset \<Rightarrow> (Raise (AttributeError ''udev''), s)
      | NoneRef \<Rightarrow> (Raise (AttributeError ''set_baudrate''), s)
      | Obj d \<Rightarrow>
          (case reconfigure_body d s of
             (Raise e, s') \<Rightarrow>
               if is_IOError e
               then (Raise (SerialException (str e @ '' ('' @ get_error_string d @ '')'')), s')
               else (Raise e, s')
           | (Return u, s') \<Rightarrow> (Return (), s')))"

subsection \<open>\<^verbatim>\<open>open\<close> and \<^verbatim>\<open>close\<close>\<close>

text \<open>
  \<^verbatim>\<open>Ftdi.create_from_url\<close> is the driver's resolver, a parameter: for a URL it gives a
  device or raises.
\<close>

definition FtdiSerial_open ::
  "(string \<Rightarrow> exn + ftdi) \<Rightarrow> FtdiSerial \<Rightarrow> unit result \<times> FtdiSerial" where
  "FtdiSerial_open create_from_url s =
     (case port s of
        None \<Rightarrow> (Raise (SerialException ''Port must be configured before use.''), s)
      | Some url \<Rightarrow>
          (case create_from_url url of
             Inl ex \<Rightarrow>
               if is_UsbToolsError ex \<or> is_IOError ex
               then (Raise (SerialException
                       (''Unable to open USB port '' @ portstr s @ '': '' @ str ex)), s)
               else (Raise ex, s)
           | Inr device \<Rightarrow>
               FtdiSerial_reconfigure_port
                 (FtdiSerial_set_open_state True (s\<lparr>udev := Obj device\<rparr>))))"

text \<open>
  \<^verbatim>\<open>if self.udev:\<close> is false for \<^verbatim>\<open>None\<close> and true for a device object (the driver's class
  defines no truth value of its own); on a port that was never opened the attribute does
  not exist and reading it raises \<^verbatim>\<open>AttributeError\<close>.
\<close>

definition FtdiSerial_close :: "FtdiSerial \<Rightarrow> unit result \<times> FtdiSerial" where
  "FtdiSerial_close s =
     (let s1 = FtdiSerial_set_open_state False s in
      case udev s1 of
        Unset \<Rightarrow> (Raise (AttributeError ''udev''), s1)
      | NoneRef \<Rightarrow> (Return (), s1)
      | Obj d \<Rightarrow>
          (case invoke d Close s1 of
             (Raise e, s2) \<Rightarrow> (Raise e, s2)
           | (Return u, s2) \<Rightarrow> (Return (), s2\<lparr>udev := NoneRef\<rparr>)))"

subsection \<open>\<^verbatim>\<open>read\<close>\<close>

text \<open>
  The loop of \<^verbatim>\<open>read\<close>. It may run forever, so it is a partial function: \<open>None\<close> is a
  call that never returns. \<open>now j\<close> is what the \<open>j\<close>-th call of \<^verbatim>\<open>now()\<close> returns;
  \<open>i\<close> counts the iterations made so far, that is the \<^verbatim>\<open>read_data\<close> calls and as many
  \<^verbatim>\<open>sleep(0.01)\<close> calls; \<open>sz\<close> is the variable \<^verbatim>\<open>size\<close>. The loop returns what
  \<^verbatim>\<open>read\<close> returns, with the number of \<^verbatim>\<open>sleep\<close> calls it made. The clock is read once
  before the loop (\<open>start\<close>) and once in every iteration that got no bytes while a
  timeout is set; time is a real number, the rounding of floating-point subtraction is
  not modelled.
\<close>

partial_function (option) read_loop ::
  "ftdi \<Rightarrow> (nat \<Rightarrow> real) \<Rightarrow> real option \<Rightarrow> real \<Rightarrow> nat \<Rightarrow> nat \<Rightarrow> string \<Rightarrow> int
     \<Rightarrow> (string result \<times> nat) option" where
  "read_loop d now tmo start i j data sz =
     (case read_data d i sz of
        Inl e \<Rightarrow> Some (Raise e, i)
      | Inr buf \<Rightarrow>
          (if sz - int (length buf) \<le> 0 then Some (Return (data @ buf), i)
           else case tmo of
                  None \<Rightarrow>
                    read_loop d now tmo start (Suc i) j (data @ buf) (sz - int (length buf))
                | Some t \<Rightarrow>
                    if buf \<noteq> [] then Some (Return (data @ buf), i)
                    else if now j - start > t then Some (Return (data @ buf), i)
                    else read_loop d now tmo start (Suc i) (Suc j) (data @ buf)
                           (sz - int (length buf))))"

definition FtdiSerial_read ::
  "FtdiSerial \<Rightarrow> (nat \<Rightarrow> real) \<Rightarrow> int \<Rightarrow> (string result \<times> nat) option" where
  "FtdiSerial_read s now sz =
     (case udev s of
        Unset \<Rightarrow> Some (Raise (AttributeError ''udev''), 0)
      | NoneRef \<Rightarrow> Some (Raise (AttributeError ''read_data''), 0)
      | Obj d \<Rightarrow> read_loop d now (timeout s) (now 0) 0 1 [] sz)"

subsection \<open>\<^verbatim>\<open>in_waiting\<close> and \<^verbatim>\<open>out_waiting\<close>\<close>

definition FtdiSerial_in_waiting :: "FtdiSerial \<Rightarrow> int" where
  "FtdiSerial_in_waiting s = 0"

definition FtdiSerial_out_waiting :: "FtdiSerial \<Rightarrow> int" where
  "FtdiSerial_out_waiting s = 0"

subsection \<open>What a run received and asked for\<close>

text \<open>
  \<open>received c i\<close> is the bytes of the chunks \<open>c 0\<close>, ..., \<open>c (i - 1)\<close> put together
  (what \<^verbatim>\<open>data\<close> holds after \<open>i\<close> iterations that got these chunks), and
  \<open>flowctrl_modes cs\<close> is the modes of the \<^verbatim>\<open>set_flowctrl\<close> calls in a log, in order.
\<close>

definition received :: "(nat \<Rightarrow> string) \<Rightarrow> nat \<Rightarrow> string" where
  "received c i = concat (map c [0..<i])"

fun flowctrl_modes :: "call list \<Rightarrow> string list" where
  "flowctrl_modes [] = []"
| "flowctrl_modes (Set_flowctrl m # cs) = m # flowctrl_modes cs"
| "flowctrl_modes (c # cs) = flowctrl_modes cs"

subsection \<open>Concrete devices and ports\<close>

text \<open>
  A device on which every call succeeds and which answers the first two \<^verbatim>\<open>read_data\<close>
  calls with \<^verbatim>\<open>b"AB"\<close> and \<^verbatim>\<open>b"CD"\<close> and every later one with no bytes.
\<close>

definition example_device :: ftdi where
  "example_device =
     \<lparr>raises = (\<lambda>c. None), has_set_dynamic_latency = True,
      get_error_string = ''unknown error'',
      read_data = (\<lambda>i n. Inr (if i = 0 then ''AB'' else if i = 1 then ''CD'' else []))\<rparr>"

text \<open>A device of an older driver, without \<^verbatim>\<open>set_dynamic_latency\<close>.\<close>

definition legacy_device :: ftdi where
  "legacy_device = example_device\<lparr>has_set_dynamic_latency := False\<rparr>"

text \<open>A device that refuses every line property.\<close>

definition failing_device :: ftdi where
  "failing_device =
     example_device\<lparr>raises := (\<lambda>c. case c of
        Set_line_property b t p \<Rightarrow> Some (IOError ''UsbError: pipe'') | _ \<Rightarrow> None)\<rparr>"

text \<open>A device that never has a byte to give.\<close>

definition silent_device :: ftdi where
  "silent_device = example_device\<lparr>read_data := (\<lambda>i n. Inr [])\<rparr>"

text \<open>A port as the constructor leaves it when it does not open it, and the same port
  with both flow-control flags set.\<close>

definition example_port :: FtdiSerial where
  "example_port =
     \<lparr>port = Some ''ftdi://ftdi:232h/1'', portstr = ''ftdi://ftdi:232h/1'', udev = Unset,
      is_open = False, baudrate = 9600, bytesize = 8, stopbits = 1, parity = ''N'',
      timeout = None, rtscts = False, xonxoff = False, calls = []\<rparr>"

definition both_flags_port :: FtdiSerial where
  "both_flags_port = example_port\<lparr>rtscts := True, xonxoff := True\<rparr>"

text \<open>
  The chunks of \<open>example_device\<close>, a device whose second answer is the first with bytes,
  a clock that advances by 10 ms from one reading to the next, and an open port on a
  device with a given timeout.
\<close>

definition two_chunks :: "nat \<Rightarrow> string" where
  "two_chunks i = (if i = 0 then ''AB'' else if i = 1 then ''CD'' else [])"

definition late_device :: ftdi where
  "late_device = example_device\<lparr>read_data := (\<lambda>i n. Inr (if i = 1 then ''AB'' else []))\<rparr>"

definition example_clock :: "nat \<Rightarrow> real" where
  "example_clock j = real j / 100"

definition reading_port :: "ftdi \<Rightarrow> real option \<Rightarrow> FtdiSerial" where
  "reading_port d t = example_port\<lparr>udev := Obj d, is_open := True, timeout := t\<rparr>"

text \<open>
  Resolvers: one that finds no device for the URL, and one that gives \<open>failing_device\<close>.
\<close>

definition absent_resolver :: "string \<Rightarrow> exn + ftdi" where
  "absent_resolver url = Inl (UsbToolsError ''No USB device matches URL'')"

definition failing_resolver :: "string \<Rightarrow> exn + ftdi" where
  "failing_resolver url = Inr failing_device"

text \<open>
  What a caller can test on the exception it catches,
  \<^verbatim>\<open>isinstance(e, SerialException)\<close>, and whether a call ended by raising such an
  exception.
\<close>

fun is_SerialException :: "exn \<Rightarrow> bool" where
  "is_SerialException (SerialException m) = True"
| "is_SerialException e = False"

definition raises_SerialException :: "unit result \<times> FtdiSerial \<Rightarrow> bool" where
  "raises_SerialException r = (case fst r of Raise e \<Rightarrow> is_SerialException e | Return u \<Rightarrow> False)"

section \<open>Properties\<close>

lemmas run_defs = invoke_def seq_def FtdiSerial_set_open_state_def try_set_dynamic_latency_def
  reconfigure_body_def FtdiSerial_reconfigure_port_def FtdiSerial_open_def FtdiSerial_close_def

lemmas example_defs = example_device_def legacy_device_def failing_device_def
  silent_device_def example_port_def both_flags_port_def

lemma flowctrl_modes_append: "flowctrl_modes (xs @ ys) = flowctrl_modes xs @ flowctrl_modes ys"
  by (induction xs rule: flowctrl_modes.induct) simp_all

subsection \<open>\<^verbatim>\<open>close\<close>\<close>



subsection \<open>\<^verbatim>\<open>in_waiting\<close> and \<^verbatim>\<open>out_waiting\<close>\<close>

text \<open>
  Claim C7. Both properties are 0 for every port, whatever handle the port holds and
  whatever the device behind it would answer.
\<close>

theorem FtdiSerial_waiting_zero:
  "FtdiSerial_in_waiting s = 0 \<and> FtdiSerial_out_waiting s = 0"
  by (simp add: FtdiSerial_in_waiting_def FtdiSerial_out_waiting_def)

subsection \<open>\<^verbatim>\<open>open\<close> and \<^verbatim>\<open>_reconfigure_port\<close>\<close>

text \<open>
  Claim C5. When \<^verbatim>\<open>open\<close> returns, the resolver gave a device for the port's URL, the port
  holds that device and is marked open, and the device has received, after whatever it had
  received before and in this order, the stored baud rate, the stored byte size, stop bits
  and parity (one call), and the flow-control mode, followed by the latency hint when the
  device has that method. Nothing else of the port has changed.
\<close>

theorem FtdiSerial_open_success:
  assumes "FtdiSerial_open create_from_url s = (Return (), s')"
  shows "\<exists>url d. port s = Some url \<and> create_from_url url = Inr d \<and>
           s' = s\<lparr>udev := Obj d, is_open := True,
                  calls := calls s @
                    [Set_baudrate (baudrate s),
                     Set_line_property (bytesize s) (stopbits s) (parity s),
                     Set_flowctrl (if rtscts s then ''hw'' else if xonxoff s then ''sw'' else '''')]
                    @ (if has_set_dynamic_latency d then [Set_dynamic_latency 12 200 50]
                       else [])\<rparr>"
  using assms
  by (auto simp: run_defs
       split: handle.splits option.splits sum.splits if_splits result.splits prod.splits)

theorem FtdiSerial_open_success_witness:
  "FtdiSerial_open (\<lambda>url. Inr example_device) example_port =
     (Return (),
      example_port\<lparr>udev := Obj example_device, is_open := True,
        calls := [Set_baudrate 9600, Set_line_property 8 1 ''N'', Set_flowctrl '''',
                  Set_dynamic_latency 12 200 50]\<rparr>) \<and>
   (\<exists>url d. port example_port = Some url \<and> Inr example_device = Inr d \<and>
      example_port\<lparr>udev := Obj example_device, is_open := True,
        calls := [Set_baudrate 9600, Set_line_property 8 1 ''N'', Set_flowctrl '''',
                  Set_dynamic_latency 12 200 50]\<rparr> =
      example_port\<lparr>udev := Obj d, is_open := True,
        calls := calls example_port @
          [Set_baudrate (baudrate example_port),
           Set_line_property (bytesize example_port) (stopbits example_port)
             (parity example_port),
           Set_flowctrl (if rtscts example_port then ''hw''
                         else if xonxoff example_port then ''sw'' else '''')]
          @ (if has_set_dynamic_latency d then [Set_dynamic_latency 12 200 50] else [])\<rparr>)"
proof -
  have returns: "FtdiSerial_open (\<lambda>url. Inr example_device) example_port =
     (Return (),
      example_port\<lparr>udev := Obj example_device, is_open := True,
        calls := [Set_baudrate 9600, Set_line_property 8 1 ''N'', Set_flowctrl '''',
                  Set_dynamic_latency 12 200 50]\<rparr>)"
    by (simp add: run_defs example_defs)
  from FtdiSerial_open_success [OF returns] returns show ?thesis
    by blast
qed

text \<open>
  Claim C6. When \<^verbatim>\<open>_reconfigure_port\<close> runs on a device that accepts the baud rate and
  the line properties, it makes exactly one \<^verbatim>\<open>set_flowctrl\<close> call: with \<^verbatim>\<open>'hw'\<close> when
  \<^verbatim>\<open>rtscts\<close> is set, whatever \<^verbatim>\<open>xonxoff\<close> is; otherwise with \<^verbatim>\<open>'sw'\<close> when \<^verbatim>\<open>xonxoff\<close>
  is set; otherwise with the empty string.
\<close>

theorem FtdiSerial_reconfigure_port_flowctrl:
  assumes "udev s = Obj d"
    and "raises d (Set_baudrate (baudrate s)) = None"
    and "raises d (Set_line_property (bytesize s) (stopbits s) (parity s)) = None"
  shows "flowctrl_modes (calls (snd (FtdiSerial_reconfigure_port s))) =
           flowctrl_modes (calls s) @
             [if rtscts s then ''hw'' else if xonxoff s then ''sw'' else '''']"
  using assms
  by (auto simp: run_defs flowctrl_modes_append split: option.splits)

theorem FtdiSerial_reconfigure_port_flowctrl_witness:
  "udev (both_flags_port\<lparr>udev := Obj example_device\<rparr>) = Obj example_device \<and>
   raises example_device (Set_baudrate 9600) = None \<and>
   raises example_device (Set_line_property 8 1 ''N'') = None \<and>
   rtscts both_flags_port \<and> xonxoff both_flags_port \<and>
   flowctrl_modes (calls (snd (FtdiSerial_reconfigure_port
      (both_flags_port\<lparr>udev := Obj example_device\<rparr>)))) = [''hw'']"
  using FtdiSerial_reconfigure_port_flowctrl
    [of "both_flags_port\<lparr>udev := Obj example_device\<rparr>" example_device]
  by (simp add: example_defs)

text \<open>
  Claim C9. Let the resolver give a device that accepts the baud rate, the line properties
  and the flow-control mode, and that lacks the latency method or raises
  \<^verbatim>\<open>AttributeError\<close> in it. Then \<^verbatim>\<open>open\<close> returns, the port is open and holds the
  device, and the three settings are what the device received, in order (followed by the
  latency call when the method exists).
\<close>

theorem FtdiSerial_open_latency_unsupported:
  assumes "port s = Some url" and "create_from_url url = Inr d"
    and "raises d (Set_baudrate (baudrate s)) = None"
    and "raises d (Set_line_property (bytesize s) (stopbits s) (parity s)) = None"
    and "raises d (Set_flowctrl (if rtscts s then ''hw'' else if xonxoff s then ''sw'' else '''')) = None"
    and "\<not> has_set_dynamic_latency d \<or>
         (\<exists>m. raises d (Set_dynamic_latency 12 200 50) = Some (AttributeError m))"
  shows "FtdiSerial_open create_from_url s =
           (Return (),
            s\<lparr>udev := Obj d, is_open := True,
              calls := calls s @
                [Set_baudrate (baudrate s),
                 Set_line_property (bytesize s) (stopbits s) (parity s),
                 Set_flowctrl (if rtscts s then ''hw'' else if xonxoff s then ''sw'' else '''')]
                @ (if has_set_dynamic_latency d then [Set_dynamic_latency 12 200 50]
                   else [])\<rparr>)"
  using assms
  by (cases "rtscts s"; cases "xonxoff s"; auto simp: run_defs split: option.splits)

theorem FtdiSerial_open_latency_unsupported_witness:
  "port example_port = Some ''ftdi://ftdi:232h/1'' \<and>
   raises legacy_device (Set_baudrate 9600) = None \<and>
   raises legacy_device (Set_line_property 8 1 ''N'') = None \<and>
   raises legacy_device (Set_flowctrl '''') = None \<and>
   \<not> has_set_dynamic_latency legacy_device \<and>
   FtdiSerial_open (\<lambda>url. Inr legacy_device) example_port =
     (Return (),
      example_port\<lparr>udev := Obj legacy_device, is_open := True,
        calls := [Set_baudrate 9600, Set_line_property 8 1 ''N'', Set_flowctrl '''']\<rparr>)"
  using FtdiSerial_open_latency_unsupported
    [of example_port "''ftdi://ftdi:232h/1''" "\<lambda>url. Inr legacy_device" legacy_device]
  by (simp add: example_defs)

text \<open>
  Claim C10. Let the resolver give a device that raises in the baud-rate call, in the
  line-property call or in the flow-control call. Then \<^verbatim>\<open>open\<close> raises, and the port it
  leaves is marked open and holds the device.
\<close>

theorem FtdiSerial_open_not_atomic:
  assumes "port s = Some url" and "create_from_url url = Inr d"
    and "raises d (Set_baudrate (baudrate s)) \<noteq> None \<or>
         raises d (Set_line_property (bytesize s) (stopbits s) (parity s)) \<noteq> None \<or>
         raises d (Set_flowctrl (if rtscts s then ''hw'' else if xonxoff s then ''sw'' else '''')) \<noteq> None"
  shows "\<exists>e s'. FtdiSerial_open create_from_url s = (Raise e, s') \<and> is_open s' \<and>
           udev s' = Obj d"
  using assms
  by (cases "rtscts s"; cases "xonxoff s"; auto simp: run_defs split: option.splits)

theorem FtdiSerial_open_not_atomic_witness:
  "port example_port = Some ''ftdi://ftdi:232h/1'' \<and>
   raises failing_device (Set_line_property 8 1 ''N'') \<noteq> None \<and>
   \<not> is_open example_port \<and>
   (\<exists>e s'. FtdiSerial_open (\<lambda>url. Inr failing_device) example_port = (Raise e, s') \<and>
      is_open s' \<and> udev s' = Obj failing_device)"
  using FtdiSerial_open_not_atomic
    [of example_port "''ftdi://ftdi:232h/1''" "\<lambda>url. Inr failing_device" failing_device]
  by (simp add: example_defs)

subsection \<open>The exceptions of \<^verbatim>\<open>open\<close>\<close>

text \<open>
  Claim C8, as the code has it. The open-time failure and the configuration failure are
  raised as the same class, \<^verbatim>\<open>SerialException\<close>, each with a text of its own form. When
  the resolver raises \<^verbatim>\<open>UsbToolsError\<close> or \<^verbatim>\<open>IOError\<close>, \<^verbatim>\<open>open\<close> raises \<^verbatim>\<open>SerialException\<close>
  with the text \<^verbatim>\<open>Unable to open USB port <portstr>: <cause>\<close> and leaves the port as it
  was. When the first device call of the configuration that raises (baud rate, line
  properties, flow control, latency) raises an \<^verbatim>\<open>IOError\<close>, \<^verbatim>\<open>open\<close> raises
  \<^verbatim>\<open>SerialException\<close> with the text \<^verbatim>\<open><cause> (<device error string>)\<close>, the port marked
  open and holding the device.
\<close>

theorem FtdiSerial_open_failure_messages:
  assumes "port s = Some url"
  shows "(create_from_url url = Inl ex \<and> (is_UsbToolsError ex \<or> is_IOError ex) \<longrightarrow>
            FtdiSerial_open create_from_url s =
              (Raise (SerialException
                 (''Unable to open USB port '' @ portstr s @ '': '' @ str ex)), s)) \<and>
         (create_from_url url = Inr d \<and> is_IOError e \<and>
            (raises d (Set_baudrate (baudrate s)) = Some e \<or>
             raises d (Set_baudrate (baudrate s)) = None \<and>
             (raises d (Set_line_property (bytesize s) (stopbits s) (parity s)) = Some e \<or>
              raises d (Set_line_property (bytesize s) (stopbits s) (parity s)) = None \<and>
              (raises d (Set_flowctrl
                 (if rtscts s then ''hw'' else if xonxoff s then ''sw'' else '''')) = Some e \<or>
               raises d (Set_flowctrl
                 (if rtscts s then ''hw'' else if xonxoff s then ''sw'' else '''')) = None \<and>
               has_set_dynamic_latency d \<and>
               raises d (Set_dynamic_latency 12 200 50) = Some e))) \<longrightarrow>
            (\<exists>s'. FtdiSerial_open create_from_url s =
                    (Raise (SerialException (str e @ '' ('' @ get_error_string d @ '')'')), s') \<and>
                  is_open s' \<and> udev s' = Obj d))"
proof (intro conjI impI)
  assume "create_from_url url = Inl ex \<and> (is_UsbToolsError ex \<or> is_IOError ex)"
  with assms show "FtdiSerial_open create_from_url s =
      (Raise (SerialException (''Unable to open USB port '' @ portstr s @ '': '' @ str ex)), s)"
    by (auto simp: FtdiSerial_open_def)
next
  assume a: "create_from_url url = Inr d \<and> is_IOError e \<and>
            (raises d (Set_baudrate (baudrate s)) = Some e \<or>
             raises d (Set_baudrate (baudrate s)) = None \<and>
             (raises d (Set_line_property (bytesize s) (stopbits s) (parity s)) = Some e \<or>
              raises d (Set_line_property (bytesize s) (stopbits s) (parity s)) = None \<and>
              (raises d (Set_flowctrl
                 (if rtscts s then ''hw'' else if xonxoff s then ''sw'' else '''')) = Some e \<or>
               raises d (Set_flowctrl
                 (if rtscts s then ''hw'' else if xonxoff s then ''sw'' else '''')) = None \<and>
               has_set_dynamic_latency d \<and>
               raises d (Set_dynamic_latency 12 200 50) = Some e)))"
  then have "is_IOError e" by simp
  then have na: "\<not> is_AttributeError e" by (cases e) simp_all
  from a assms na show "\<exists>s'. FtdiSerial_open create_from_url s =
      (Raise (SerialException (str e @ '' ('' @ get_error_string d @ '')'')), s') \<and>
      is_open s' \<and> udev s' = Obj d"
    by (cases "rtscts s"; cases "xonxoff s"; auto simp: run_defs)
qed

theorem FtdiSerial_open_failure_messages_witness:
  "port example_port = Some ''ftdi://ftdi:232h/1'' \<and>
   absent_resolver ''ftdi://ftdi:232h/1'' = Inl (UsbToolsError ''No USB device matches URL'') \<and>
   FtdiSerial_open absent_resolver example_port =
     (Raise (SerialException
        ''Unable to open USB port ftdi://ftdi:232h/1: No USB device matches URL''),
      example_port) \<and>
   failing_resolver ''ftdi://ftdi:232h/1'' = Inr failing_device \<and>
   raises failing_device (Set_baudrate 9600) = None \<and>
   raises failing_device (Set_line_property 8 1 ''N'') = Some (IOError ''UsbError: pipe'') \<and>
   (\<exists>s'. FtdiSerial_open failing_resolver example_port =
           (Raise (SerialException ''UsbError: pipe (unknown error)''), s') \<and>
         is_open s' \<and> udev s' = Obj failing_device)"
proof -
  have p: "port example_port = Some ''ftdi://ftdi:232h/1''"
    by (simp add: example_port_def)
  have facts:
    "absent_resolver ''ftdi://ftdi:232h/1'' = Inl (UsbToolsError ''No USB device matches URL'')"
    "failing_resolver ''ftdi://ftdi:232h/1'' = Inr failing_device"
    "raises failing_device (Set_baudrate 9600) = None"
    "raises failing_device (Set_line_property 8 1 ''N'') = Some (IOError ''UsbError: pipe'')"
    "get_error_string failing_device = ''unknown error''"
    "portstr example_port = ''ftdi://ftdi:232h/1''"
    "baudrate example_port = 9600" "bytesize example_port = 8" "stopbits example_port = 1"
    "parity example_port = ''N''"
    by (simp_all add: absent_resolver_def failing_resolver_def example_defs)
  from FtdiSerial_open_failure_messages
    [OF p, of absent_resolver "UsbToolsError ''No USB device matches URL''"]
  have first: "FtdiSerial_open absent_resolver example_port =
     (Raise (SerialException
        ''Unable to open USB port ftdi://ftdi:232h/1: No USB device matches URL''),
      example_port)"
    by (simp add: facts)
  from FtdiSerial_open_failure_messages
    [OF p, of failing_resolver _ failing_device "IOError ''UsbError: pipe''"]
  have second: "\<exists>s'. FtdiSerial_open failing_resolver example_port =
           (Raise (SerialException ''UsbError: pipe (unknown error)''), s') \<and>
         is_open s' \<and> udev s' = Obj failing_device"
    by (simp add: facts)
  from p facts first second show ?thesis
    by blast
qed

text \<open>
  The two kinds of failure are not two classes. With a resolver that finds no device,
  \<^verbatim>\<open>open\<close> raises a \<^verbatim>\<open>SerialException\<close>; with a device that refuses the line properties,
  \<^verbatim>\<open>open\<close> raises a \<^verbatim>\<open>SerialException\<close> as well. Here the two texts differ, and the port
  is left closed in the first case and open in the second.
\<close>

theorem FtdiSerial_open_errors_same_class:
  "raises_SerialException (FtdiSerial_open absent_resolver example_port) \<and>
   raises_SerialException (FtdiSerial_open failing_resolver example_port) \<and>
   fst (FtdiSerial_open absent_resolver example_port) =
     Raise (SerialException
       ''Unable to open USB port ftdi://ftdi:232h/1: No USB device matches URL'') \<and>
   fst (FtdiSerial_open failing_resolver example_port) =
     Raise (SerialException ''UsbError: pipe (unknown error)'') \<and>
   \<not> is_open (snd (FtdiSerial_open absent_resolver example_port)) \<and>
   is_open (snd (FtdiSerial_open failing_resolver example_port))"
  by (simp add: raises_SerialException_def run_defs example_defs absent_resolver_def
        failing_resolver_def)

subsection \<open>\<^verbatim>\<open>read\<close>\<close>

text \<open>
  The loop, started at iteration \<open>i\<close> with what the earlier iterations left: one lemma
  for each way it ends.
\<close>

lemma received_0: "received c 0 = []"
  by (simp add: received_def)

lemma received_Suc: "received c (Suc i) = received c i @ c i"
  by (simp add: received_def)

lemma read_loop_no_timeout:
  assumes resp: "\<forall>i\<le>k. read_data d i (n - int (length (received c i))) = Inr (c i)"
    and before: "\<forall>i<k. int (length (received c (Suc i))) < n"
    and at: "int (length (received c (Suc k))) = n"
  shows "i \<le> k \<Longrightarrow>
         read_loop d now None start i j (received c i) (n - int (length (received c i))) =
           Some (Return (received c (Suc k)), k)"
proof (induction "k - i" arbitrary: i)
  case 0
  then have ik: "i = k" by simp
  from resp have r: "read_data d k (n - int (length (received c k))) = Inr (c k)" by simp
  from at have "n - int (length (received c k)) - int (length (c k)) \<le> 0"
    by (simp add: received_Suc)
  with r show ?case
    unfolding ik by (subst read_loop.simps) (simp add: received_Suc)
next
  case (Suc m)
  then have lt: "i < k" and le: "Suc i \<le> k" and m: "m = k - Suc i" by simp_all
  from resp lt have r: "read_data d i (n - int (length (received c i))) = Inr (c i)" by simp
  from before lt have "int (length (received c (Suc i))) < n" by blast
  then have pos: "\<not> n - int (length (received c i)) - int (length (c i)) \<le> 0"
    by (simp add: received_Suc)
  have eq: "n - int (length (received c i)) - int (length (c i)) =
      n - int (length (received c (Suc i)))"
    by (simp add: received_Suc)
  have "read_loop d now None start i j (received c i) (n - int (length (received c i))) =
      read_loop d now None start (Suc i) j (received c i @ c i)
        (n - int (length (received c i)) - int (length (c i)))"
    using r pos by (subst read_loop.simps) simp
  also have "\<dots> = read_loop d now None start (Suc i) j (received c (Suc i))
        (n - int (length (received c (Suc i))))"
    by (simp only: eq received_Suc)
  also have "\<dots> = Some (Return (received c (Suc k)), k)"
    by (rule Suc.hyps(1)[OF m le])
  finally show ?case .
qed

lemma read_loop_first_chunk:
  assumes empty: "\<forall>m<k. read_data d m sz = Inr []"
    and early: "\<forall>m<k. \<not> t < now (Suc m) - start"
    and chunk: "read_data d k sz = Inr buf" and ne: "buf \<noteq> []" and pos: "0 < sz"
  shows "i \<le> k \<Longrightarrow>
         read_loop d now (Some t) start i (Suc i) data sz = Some (Return (data @ buf), k)"
proof (induction "k - i" arbitrary: i)
  case 0
  then have ik: "i = k" by simp
  show ?case
    unfolding ik using chunk ne by (subst read_loop.simps) simp
next
  case (Suc m)
  then have lt: "i < k" and le: "Suc i \<le> k" and m: "m = k - Suc i" by simp_all
  from empty lt have r: "read_data d i sz = Inr []" by simp
  from early lt have e: "\<not> t < now (Suc i) - start" by simp
  show ?case
    using r e pos Suc.hyps(1)[OF m le]
    by (subst read_loop.simps) simp
qed

lemma read_loop_expires:
  assumes empty: "\<forall>m. read_data d m sz = Inr []"
    and early: "\<forall>m<k. \<not> t < now (Suc m) - start"
    and late: "t < now (Suc k) - start" and pos: "0 < sz"
  shows "i \<le> k \<Longrightarrow>
         read_loop d now (Some t) start i (Suc i) data sz = Some (Return data, k)"
proof (induction "k - i" arbitrary: i)
  case 0
  then have ik: "i = k" by simp
  show ?case
    unfolding ik using empty late pos by (subst read_loop.simps) simp
next
  case (Suc m)
  then have lt: "i < k" and le: "Suc i \<le> k" and m: "m = k - Suc i" by simp_all
  from early lt have e: "\<not> t < now (Suc i) - start" by simp
  show ?case
    using empty e pos Suc.hyps(1)[OF m le]
    by (subst read_loop.simps) simp
qed

lemma read_loop_satisfied_at_once:
  assumes "read_data d i sz = Inr []" and "sz \<le> 0"
  shows "read_loop d now tmo start i j data sz = Some (Return data, i)"
  using assms by (subst read_loop.simps) simp

lemma read_loop_starved:
  assumes resp: "\<forall>m. read_data d0 m (n - int (length (received c m))) = Inr (c m)"
    and short: "\<forall>m. int (length (received c (Suc m))) < n"
    and ret: "read_loop d now tmo start i j data sz = Some y"
  shows "d = d0 \<and> tmo = None \<and> sz = n - int (length (received c i)) \<longrightarrow> False"
proof (rule read_loop.raw_induct
    [where P = "\<lambda>d now tmo start i j data sz y.
       d = d0 \<and> tmo = None \<and> sz = n - int (length (received c i)) \<longrightarrow> False", OF _ ret])
  fix f :: "ftdi \<Rightarrow> (nat \<Rightarrow> real) \<Rightarrow> real option \<Rightarrow> real \<Rightarrow> nat \<Rightarrow> nat \<Rightarrow> string \<Rightarrow> int
     \<Rightarrow> (string result \<times> nat) option"
  fix d now tmo start i j data sz y
  assume IH: "\<And>d now tmo start i j data sz y. f d now tmo start i j data sz = Some y \<Longrightarrow>
      d = d0 \<and> tmo = None \<and> sz = n - int (length (received c i)) \<longrightarrow> False"
  assume body: "(case read_data d i sz of
        Inl e \<Rightarrow> Some (Raise e, i)
      | Inr buf \<Rightarrow>
          (if sz - int (length buf) \<le> 0 then Some (Return (data @ buf), i)
           else case tmo of
                  None \<Rightarrow> f d now tmo start (Suc i) j (data @ buf) (sz - int (length buf))
                | Some t \<Rightarrow>
                    if buf \<noteq> [] then Some (Return (data @ buf), i)
                    else if now j - start > t then Some (Return (data @ buf), i)
                    else f d now tmo start (Suc i) (Suc j) (data @ buf)
                           (sz - int (length buf)))) = Some y"
  show "d = d0 \<and> tmo = None \<and> sz = n - int (length (received c i)) \<longrightarrow> False"
  proof
    assume a: "d = d0 \<and> tmo = None \<and> sz = n - int (length (received c i))"
    then have d: "d = d0" and t: "tmo = None" and s: "sz = n - int (length (received c i))"
      by blast+
    from resp have r: "read_data d i sz = Inr (c i)"
      unfolding d s by blast
    from short have "int (length (received c (Suc i))) < n" by blast
    then have pos: "\<not> sz - int (length (c i)) \<le> 0"
      unfolding s by (simp add: received_Suc)
    have nx: "sz - int (length (c i)) = n - int (length (received c (Suc i)))"
      unfolding s by (simp add: received_Suc)
    from body have
      "f d now tmo start (Suc i) j (data @ c i) (sz - int (length (c i))) = Some y"
      by (simp only: r pos t sum.case if_False option.case)
    from IH [OF this] d t nx show False
      by blast
  qed
qed

text \<open>
  Claim C1. No timeout is configured. The device answers the polls \<open>0\<close>, ..., \<open>k\<close> of the
  read with the chunks \<open>c 0\<close>, ..., \<open>c k\<close>, each poll asking for the bytes still missing
  and the device never giving more than it is asked for; before poll \<open>k\<close> fewer than
  \<open>sz\<close> bytes have come in, and with poll \<open>k\<close> at least \<open>sz\<close>. Then \<^verbatim>\<open>read(sz)\<close>
  returns, after exactly \<open>k\<close> sleeps, the chunks put together, and they are exactly \<open>sz\<close>
  bytes. (The hypotheses can hold only when \<open>0 \<le> sz\<close>, and for every such \<open>sz\<close> they do
  hold for some device.)
\<close>

theorem FtdiSerial_read_no_timeout:
  assumes dev: "udev s = Obj d" and tmo: "timeout s = None"
    and resp: "\<forall>i\<le>k. read_data d i (sz - int (length (received c i))) = Inr (c i)"
    and honour: "\<forall>i\<le>k. int (length (c i)) \<le> sz - int (length (received c i))"
    and before: "\<forall>i<k. int (length (received c (Suc i))) < sz"
    and at: "sz \<le> int (length (received c (Suc k)))"
  shows "FtdiSerial_read s now sz = Some (Return (received c (Suc k)), k) \<and>
         int (length (received c (Suc k))) = sz"
proof -
  from honour have "int (length (c k)) \<le> sz - int (length (received c k))" by simp
  with at have total: "int (length (received c (Suc k))) = sz"
    by (simp add: received_Suc)
  from read_loop_no_timeout [OF resp before total, of 0 now "now 0" 1]
  have "read_loop d now None (now 0) 0 1 [] sz = Some (Return (received c (Suc k)), k)"
    by (simp add: received_0)
  with dev tmo total show ?thesis
    by (simp add: FtdiSerial_read_def)
qed

theorem FtdiSerial_read_no_timeout_witness:
  "timeout (reading_port example_device None) = None \<and>
   read_data example_device 0 4 = Inr ''AB'' \<and>
   read_data example_device 1 (4 - 2) = Inr ''CD'' \<and>
   FtdiSerial_read (reading_port example_device None) example_clock 4 =
     Some (Return ''ABCD'', 1)"
proof -
  have r: "received two_chunks (Suc 0) = ''AB''" "received two_chunks (Suc (Suc 0)) = ''ABCD''"
    by (simp_all add: received_def two_chunks_def)
  have resp: "\<forall>i\<le>Suc 0. read_data example_device i (4 - int (length (received two_chunks i))) =
      Inr (two_chunks i)"
    by (simp add: le_Suc_eq example_device_def two_chunks_def)
  have honour: "\<forall>i\<le>Suc 0. int (length (two_chunks i)) \<le> 4 - int (length (received two_chunks i))"
    by (auto simp: le_Suc_eq r received_0 two_chunks_def)
  have before: "\<forall>i<Suc 0. int (length (received two_chunks (Suc i))) < 4"
    by (simp add: r)
  have at: "4 \<le> int (length (received two_chunks (Suc (Suc 0))))"
    by (simp add: r)
  have "udev (reading_port example_device None) = Obj example_device"
    and "timeout (reading_port example_device None) = None"
    by (simp_all add: reading_port_def)
  from FtdiSerial_read_no_timeout [OF this resp honour before at, where now = example_clock]
  have res: "FtdiSerial_read (reading_port example_device None) example_clock 4 =
     Some (Return ''ABCD'', 1)"
    by (simp add: r)
  have "timeout (reading_port example_device None) = None"
    and "read_data example_device 0 4 = Inr ''AB''"
    and "read_data example_device 1 (4 - 2) = Inr ''CD''"
    by (simp_all add: reading_port_def example_device_def)
  with res show ?thesis
    by blast
qed

text \<open>
  With no timeout and a device that answers every poll but never completes the request,
  the call does not return.
\<close>

lemma FtdiSerial_read_never_returns:
  assumes dev: "udev s = Obj d" and tmo: "timeout s = None"
    and resp: "\<forall>i. read_data d i (sz - int (length (received c i))) = Inr (c i)"
    and short: "\<forall>i. int (length (received c (Suc i))) < sz"
  shows "FtdiSerial_read s now sz = None"
proof (cases "FtdiSerial_read s now sz")
  case None
  then show ?thesis .
next
  case (Some y)
  with dev tmo have "read_loop d now None (now 0) 0 1 [] sz = Some y"
    by (simp add: FtdiSerial_read_def)
  from read_loop_starved [OF resp short this] have False
    by (simp add: received_0)
  then show ?thesis ..
qed

text \<open>
  Claim C2. A timeout \<open>t\<close> is configured and more than zero bytes are asked for. The
  device answers the polls before poll \<open>k\<close> with no bytes, the timeout not having passed
  at any of them, and poll \<open>k\<close> with a nonempty chunk. Then \<^verbatim>\<open>read(sz)\<close> returns that
  chunk at poll \<open>k\<close>, without a further sleep, whether or not the chunk has \<open>sz\<close> bytes.
\<close>

theorem FtdiSerial_read_timeout_first_chunk:
  assumes dev: "udev s = Obj d" and tmo: "timeout s = Some t" and pos: "0 < sz"
    and empty: "\<forall>m<k. read_data d m sz = Inr []"
    and early: "\<forall>m<k. \<not> t < now (Suc m) - now 0"
    and chunk: "read_data d k sz = Inr buf" and ne: "buf \<noteq> []"
  shows "FtdiSerial_read s now sz = Some (Return buf, k)"
  using read_loop_first_chunk [OF empty early chunk ne pos, of 0 "[]"] dev tmo
  by (simp add: FtdiSerial_read_def)

theorem FtdiSerial_read_timeout_first_chunk_witness:
  "timeout (reading_port late_device (Some 1)) = Some 1 \<and>
   read_data late_device 0 4 = Inr [] \<and>
   \<not> 1 < example_clock 1 - example_clock 0 \<and>
   read_data late_device 1 4 = Inr ''AB'' \<and>
   FtdiSerial_read (reading_port late_device (Some 1)) example_clock 4 =
     Some (Return ''AB'', 1)"
proof -
  have dev: "udev (reading_port late_device (Some 1)) = Obj late_device"
    and tmo: "timeout (reading_port late_device (Some 1)) = Some 1"
    by (simp_all add: reading_port_def)
  have empty: "\<forall>m<Suc 0. read_data late_device m 4 = Inr []"
    by (simp add: late_device_def)
  have early: "\<forall>m<Suc 0. \<not> 1 < example_clock (Suc m) - example_clock 0"
    by (simp add: example_clock_def)
  have chunk: "read_data late_device (Suc 0) 4 = Inr ''AB''"
    by (simp add: late_device_def)
  from FtdiSerial_read_timeout_first_chunk [OF dev tmo _ empty early chunk]
  have res: "FtdiSerial_read (reading_port late_device (Some 1)) example_clock 4 =
     Some (Return ''AB'', 1)"
    by simp
  have "read_data late_device 0 4 = Inr []"
    and "\<not> 1 < example_clock 1 - example_clock 0"
    and "read_data late_device 1 4 = Inr ''AB''"
    using empty early chunk by simp_all
  with tmo res show ?thesis
    by blast
qed

text \<open>
  Claim C3. A timeout \<open>t\<close> is configured, the device answers every poll with no bytes,
  and some clock reading of the loop is more than \<open>t\<close> after the reading taken when the
  read started. Then \<^verbatim>\<open>read(sz)\<close> returns the empty byte string: when \<open>sz\<close> is positive,
  at the first reading that is more than \<open>t\<close> after the start, and otherwise at once.
\<close>

theorem FtdiSerial_read_timeout_expires:
  assumes dev: "udev s = Obj d" and tmo: "timeout s = Some t"
    and empty: "\<forall>m. read_data d m sz = Inr []"
    and passes: "\<exists>k. t < now (Suc k) - now 0"
  shows "FtdiSerial_read s now sz =
           Some (Return [], if 0 < sz then (LEAST k. t < now (Suc k) - now 0) else 0)"
proof (cases "0 < sz")
  case True
  let ?k = "LEAST k. t < now (Suc k) - now 0"
  from passes have late: "t < now (Suc ?k) - now 0" by (rule LeastI_ex)
  have early: "\<forall>m<?k. \<not> t < now (Suc m) - now 0"
    using not_less_Least by blast
  from read_loop_expires [OF empty early late True, of 0 "[]"] dev tmo True
  show ?thesis by (simp add: FtdiSerial_read_def)
next
  case False
  with empty have "read_loop d now (Some t) (now 0) 0 1 [] sz = Some (Return [], 0)"
    by (intro read_loop_satisfied_at_once) simp_all
  with dev tmo False show ?thesis by (simp add: FtdiSerial_read_def)
qed

theorem FtdiSerial_read_timeout_expires_witness:
  "timeout (reading_port silent_device (Some (1 / 40))) = Some (1 / 40) \<and>
   read_data silent_device 0 4 = Inr [] \<and>
   \<not> 1 / 40 < example_clock 2 - example_clock 0 \<and>
   1 / 40 < example_clock 3 - example_clock 0 \<and>
   FtdiSerial_read (reading_port silent_device (Some (1 / 40))) example_clock 4 =
     Some (Return [], 2)"
proof -
  have dev: "udev (reading_port silent_device (Some (1 / 40))) = Obj silent_device"
    and tmo: "timeout (reading_port silent_device (Some (1 / 40))) = Some (1 / 40)"
    by (simp_all add: reading_port_def)
  have empty: "\<forall>m. read_data silent_device m 4 = Inr []"
    by (simp add: silent_device_def)
  have late: "1 / 40 < example_clock (Suc 2) - example_clock 0"
    by (simp add: example_clock_def)
  then have passes: "\<exists>k. 1 / 40 < example_clock (Suc k) - example_clock 0" ..
  have least: "(LEAST k. 1 / 40 < example_clock (Suc k) - example_clock 0) = 2"
  proof (rule Least_equality)
    show "1 / 40 < example_clock (Suc 2) - example_clock 0" by (rule late)
  next
    fix y :: nat
    assume "1 / 40 < example_clock (Suc y) - example_clock 0"
    then show "2 \<le> y" by (simp add: example_clock_def)
  qed
  from FtdiSerial_read_timeout_expires [OF dev tmo empty passes] least
  have res: "FtdiSerial_read (reading_port silent_device (Some (1 / 40))) example_clock 4 =
     Some (Return [], 2)"
    by simp
  have "read_data silent_device 0 4 = Inr []"
    and "\<not> 1 / 40 < example_clock 2 - example_clock 0"
    and "1 / 40 < example_clock 3 - example_clock 0"
    using empty by (simp_all add: example_clock_def)
  with tmo res show ?thesis
    by blast
qed

end
